theory Spec2Isabelle
  imports Main "HOL-Library.Word"
begin

section \<open>JavaScript strings\<close>

text \<open>
  A JavaScript string is a sequence of 16-bit code units. The two route modules are
  \<^verbatim>\<open>src/app/routes/app._index.tsx\<close> (definitions prefixed \<open>index_\<close>) and
  \<^verbatim>\<open>src/unnamed/part_000\<close> (definitions prefixed \<open>part0_\<close>); what the two
  modules share character for character is defined once.
\<close>

type_synonym jsstring = "16 word list"

text \<open>An ASCII string literal of the source, as code units.\<close>

definition js :: "string \<Rightarrow> jsstring" where
  "js s = map of_char s"

definition quote :: "16 word" where
  "quote = 0x22"

definition backslash :: "16 word" where
  "backslash = 0x5C"

text \<open>
  \<^verbatim>\<open>String.prototype.trim\<close> strips the code points WhiteSpace and LineTerminator
  of ECMAScript from both ends; every one of them is a single code unit.
\<close>

definition isWhiteSpace :: "16 word \<Rightarrow> bool" where
  "isWhiteSpace c \<longleftrightarrow>
     c = 0x09 \<or> c = 0x0A \<or> c = 0x0B \<or> c = 0x0C \<or> c = 0x0D \<or> c = 0x20 \<or> c = 0xA0 \<or>
     c = 0x1680 \<or> (0x2000 \<le> c \<and> c \<le> 0x200A) \<or> c = 0x2028 \<or> c = 0x2029 \<or>
     c = 0x202F \<or> c = 0x205F \<or> c = 0x3000 \<or> c = 0xFEFF"

definition trim :: "jsstring \<Rightarrow> jsstring" where
  "trim s = rev (dropWhile isWhiteSpace (rev (dropWhile isWhiteSpace s)))"

text \<open>\<^verbatim>\<open>v.replace(/c/g, r)\<close> for a one-character pattern and a replacement without \<^verbatim>\<open>$\<close>.\<close>

definition replace_g :: "16 word \<Rightarrow> jsstring \<Rightarrow> jsstring \<Rightarrow> jsstring" where
  "replace_g c r v = concat (map (\<lambda>x. if x = c then r else [x]) v)"

text \<open>\<^verbatim>\<open>const esc = (v) => v.replace(/\\/g, "\\\\").replace(/"/g, '\\"')\<close> (part_000).\<close>

definition esc :: "jsstring \<Rightarrow> jsstring" where
  "esc v = replace_g quote [backslash, quote] (replace_g backslash [backslash, backslash] v)"

text \<open>\<^verbatim>\<open>xs.join(sep)\<close> on an array of strings.\<close>

fun join :: "jsstring \<Rightarrow> jsstring list \<Rightarrow> jsstring" where
  "join sep [] = []"
| "join sep [x] = x"
| "join sep (x # y # ys) = x @ sep @ join sep (y # ys)"

section \<open>Rows of the parsed CSV\<close>

text \<open>
  \<^verbatim>\<open>parse(buffer, {columns: true, ...})\<close> yields one object per data line, keyed by the
  header names, with string values. A row is the finite map of its own properties;
  \<^verbatim>\<open>row.Name\<close> on a row without that column is \<^verbatim>\<open>undefined\<close>, here \<open>None\<close>.
\<close>

type_synonym CSVRow = "jsstring \<rightharpoonup> jsstring"

text \<open>\<^verbatim>\<open>row.X?.trim()\<close>\<close>

definition trimmed :: "CSVRow \<Rightarrow> string \<Rightarrow> jsstring option" where
  "trimmed row k = map_option trim (row (js k))"

text \<open>\<^verbatim>\<open>!v\<close> for \<^verbatim>\<open>v: string | undefined\<close>: undefined and the empty string are falsy.\<close>

fun falsy :: "jsstring option \<Rightarrow> bool" where
  "falsy None = True"
| "falsy (Some s) = (s = [])"

text \<open>\<^verbatim>\<open>v || ""\<close>\<close>

fun or_empty :: "jsstring option \<Rightarrow> jsstring" where
  "or_empty None = []"
| "or_empty (Some s) = s"

definition requiredHeaders :: "jsstring list" where
  "requiredHeaders = [js ''Name'', js ''Key'', js ''Type'']"

text \<open>
  \<^verbatim>\<open>const headers = Object.keys(rows[0] || {});\<close>
  \<^verbatim>\<open>const missingHeaders = requiredHeaders.filter((h) => !headers.includes(h));\<close>
  The keys of a row are the domain of its map; there are none when there is no first row.
\<close>

definition headers :: "CSVRow list \<Rightarrow> jsstring set" where
  "headers rows = (case rows of [] \<Rightarrow> {} | row # _ \<Rightarrow> dom row)"

definition missingHeaders :: "CSVRow list \<Rightarrow> jsstring list" where
  "missingHeaders rows = filter (\<lambda>h. h \<notin> headers rows) requiredHeaders"

section \<open>Log lines\<close>

definition warning_sign :: jsstring where
  "warning_sign = [0x26A0, 0xFE0F]"

definition cross_mark :: jsstring where
  "cross_mark = [0x274C]"

definition check_mark :: jsstring where
  "check_mark = [0x2705]"

definition arrow :: jsstring where
  "arrow = [0x2192]"

definition em_dash :: jsstring where
  "em_dash = [0x2014]"

definition line_no_file :: jsstring where
  "line_no_file = cross_mark @ js '' No file uploaded''"

definition line_empty :: jsstring where
  "line_empty = cross_mark @ js '' CSV file is empty''"

definition line_skipped :: jsstring where
  "line_skipped = warning_sign @ js '' Skipped row '' @ em_dash @ js '' missing name/key/type''"

definition line_created :: "jsstring \<Rightarrow> jsstring \<Rightarrow> jsstring" where
  "line_created name key =
     check_mark @ js '' Created metafield: '' @ name @ js '' ('' @ key @ js '')''"

definition line_user_errors :: "jsstring \<Rightarrow> jsstring list \<Rightarrow> jsstring" where
  "line_user_errors name messages =
     warning_sign @ js '' '' @ name @ js '' '' @ arrow @ js '' '' @ join (js '', '') messages"

definition line_unknown :: "jsstring \<Rightarrow> jsstring" where
  "line_unknown name = warning_sign @ js '' Unknown response for '' @ name"

definition line_failed :: "jsstring \<Rightarrow> jsstring \<Rightarrow> jsstring" where
  "line_failed name msg =
     cross_mark @ js '' Failed for '' @ name @ js '' '' @ arrow @ js '' '' @ msg"

text \<open>The log returned on a header failure, in each module.\<close>

definition index_invalid_log :: "jsstring list" where
  "index_invalid_log =
     [cross_mark @ js '' Invalid CSV format.'',
      js ''This app only accepts a Metafield Definitions CSV.'',
      js ''Required columns:'',
      js ''Name, Key, Type, Description'',
      [], [], []]"

definition part0_invalid_log :: "jsstring list" where
  "part0_invalid_log =
     [cross_mark @ js '' Invalid CSV format.'',
      js ''Required columns:'',
      js ''Name, Key, Type, Description'']"

section \<open>The mutation payload\<close>

text \<open>
  The template literal of both modules, with its four holes. The text between the
  holes is the same in both modules, line breaks and indentation included.
\<close>

definition mutation_template :: "jsstring \<Rightarrow> jsstring \<Rightarrow> jsstring \<Rightarrow> jsstring \<Rightarrow> jsstring" where
  \<open>mutation_template name key typ description =
     js ''\<newline>'' @
     js ''      mutation {\<newline>'' @
     js ''        metafieldDefinitionCreate(\<newline>'' @
     js ''          definition: {\<newline>'' @
     js ''            name: "'' @ name @ js ''"\<newline>'' @
     js ''            namespace: "custom"\<newline>'' @
     js ''            key: "'' @ key @ js ''"\<newline>'' @
     js ''            type: "'' @ typ @ js ''"\<newline>'' @
     js ''            description: "'' @ description @ js ''"\<newline>'' @
     js ''            ownerType: PRODUCT\<newline>'' @
     js ''          }\<newline>'' @
     js ''        ) {\<newline>'' @
     js ''          createdDefinition { id name key }\<newline>'' @
     js ''          userErrors { message }\<newline>'' @
     js ''        }\<newline>'' @
     js ''      }\<newline>'' @
     js ''    ''\<close>

text \<open>app._index.tsx interpolates the values as they are, part_000 through \<open>esc\<close>.\<close>

definition index_mutation :: "jsstring \<Rightarrow> jsstring \<Rightarrow> jsstring \<Rightarrow> jsstring \<Rightarrow> jsstring" where
  "index_mutation name key typ description = mutation_template name key typ description"

definition part0_mutation :: "jsstring \<Rightarrow> jsstring \<Rightarrow> jsstring \<Rightarrow> jsstring \<Rightarrow> jsstring" where
  "part0_mutation name key typ description =
     mutation_template (esc name) (esc key) (esc typ) (esc description)"

section \<open>The response of the admin API\<close>

text \<open>
  \<^verbatim>\<open>resp.json()\<close> is typed \<^verbatim>\<open>any\<close>. The model gives it the shape the query
  selects: an object whose \<^verbatim>\<open>data\<close>, \<^verbatim>\<open>data.metafieldDefinitionCreate\<close>,
  \<^verbatim>\<open>createdDefinition\<close> and \<^verbatim>\<open>userErrors\<close> may each be absent (undefined), null
  or present; \<^verbatim>\<open>userErrors\<close>, when present, is an array of objects with a string
  \<^verbatim>\<open>message\<close>.
\<close>

datatype 'a js_value = Undefined | Null | Value 'a

record created_definition =
  def_id :: jsstring
  def_name :: jsstring
  def_key :: jsstring

datatype user_error = UserError (message: jsstring)

record create_payload =
  createdDefinition :: "created_definition js_value"
  userErrors :: "user_error list js_value"

datatype gql_data = Data (metafieldDefinitionCreate: "create_payload js_value")

datatype gql_json = Json (data: "gql_data js_value")

text \<open>
  Reading a property of undefined or null raises a TypeError. Its message is the
  engine's, so it is a parameter \<open>te\<close> of the model: the message for reading the
  named property of undefined (\<open>False\<close>) or of null (\<open>True\<close>). An exception is
  represented by its \<^verbatim>\<open>message\<close>, the only part of it the code reads.
\<close>

type_synonym type_error_message = "bool \<Rightarrow> string \<Rightarrow> jsstring"

text \<open>\<^verbatim>\<open>o.p\<close>\<close>

fun member_strict :: "type_error_message \<Rightarrow> 'a js_value \<Rightarrow> string \<Rightarrow> ('a \<Rightarrow> 'b) \<Rightarrow> jsstring + 'b" where
  "member_strict te Undefined p f = Inl (te False p)"
| "member_strict te Null p f = Inl (te True p)"
| "member_strict te (Value a) p f = Inr (f a)"

text \<open>\<^verbatim>\<open>o?.p\<close>\<close>

fun member_opt :: "'a js_value \<Rightarrow> ('a \<Rightarrow> 'b js_value) \<Rightarrow> 'b js_value" where
  "member_opt Undefined f = Undefined"
| "member_opt Null f = Undefined"
| "member_opt (Value a) f = f a"

text \<open>
  The \<^verbatim>\<open>if (created) ... else if (errors?.length) ... else ...\<close> chain, the same in
  both modules: an object is truthy, undefined and null are not, and
  \<^verbatim>\<open>errors?.length\<close> is truthy for a non-empty array only.
\<close>

fun report :: "jsstring \<Rightarrow> jsstring \<Rightarrow> created_definition js_value \<Rightarrow> user_error list js_value \<Rightarrow> jsstring" where
  "report name key (Value c) errors = line_created name key"
| "report name key created (Value (e # es)) = line_user_errors name (map message (e # es))"
| "report name key created errors = line_unknown name"

text \<open>
  The body of the \<^verbatim>\<open>try\<close> after the two awaits, and the \<^verbatim>\<open>catch\<close>. The argument
  \<open>r\<close> is what \<^verbatim>\<open>await admin.graphql(mutation)\<close> followed by \<^verbatim>\<open>await resp.json()\<close>
  gave: \<open>Inl msg\<close> when one of them threw an error with that message, \<open>Inr json\<close>
  otherwise.

  app._index.tsx: \<^verbatim>\<open>json.data.metafieldDefinitionCreate.createdDefinition\<close> and
  \<^verbatim>\<open>json.data.metafieldDefinitionCreate.userErrors\<close>.
\<close>

definition index_read :: "type_error_message \<Rightarrow> gql_json \<Rightarrow> string \<Rightarrow> (create_payload \<Rightarrow> 'b) \<Rightarrow> jsstring + 'b" where
  "index_read te json p f =
     (case member_strict te (data json) ''metafieldDefinitionCreate'' metafieldDefinitionCreate of
        Inl msg \<Rightarrow> Inl msg
      | Inr d \<Rightarrow> member_strict te d p f)"

definition index_interpret :: "type_error_message \<Rightarrow> jsstring \<Rightarrow> jsstring \<Rightarrow> jsstring + gql_json \<Rightarrow> jsstring" where
  "index_interpret te name key r =
     (case r of
        Inl msg \<Rightarrow> line_failed name msg
      | Inr json \<Rightarrow>
          (case index_read te json ''createdDefinition'' createdDefinition of
             Inl msg \<Rightarrow> line_failed name msg
           | Inr created \<Rightarrow>
               (case index_read te json ''userErrors'' userErrors of
                  Inl msg \<Rightarrow> line_failed name msg
                | Inr errors \<Rightarrow> report name key created errors)))"

text \<open>
  part_000: \<^verbatim>\<open>json.data?.metafieldDefinitionCreate?.createdDefinition\<close> and
  \<^verbatim>\<open>json.data?.metafieldDefinitionCreate?.userErrors\<close>.
\<close>

definition part0_read :: "gql_json \<Rightarrow> (create_payload \<Rightarrow> 'b js_value) \<Rightarrow> 'b js_value" where
  "part0_read json f =
     member_opt (data json) (\<lambda>d. member_opt (metafieldDefinitionCreate d) f)"

definition part0_interpret :: "jsstring \<Rightarrow> jsstring \<Rightarrow> jsstring + gql_json \<Rightarrow> jsstring" where
  "part0_interpret name key r =
     (case r of
        Inl msg \<Rightarrow> line_failed name msg
      | Inr json \<Rightarrow> report name key (part0_read json createdDefinition) (part0_read json userErrors))"

section \<open>The network\<close>

text \<open>
  The admin API is outside the repository: one exchange takes the query text and the
  state of the remote service and gives the outcome (as for \<open>index_interpret\<close>) and
  the new state. \<open>sent\<close> records the queries sent so far, in order.
\<close>

type_synonym 's admin = "jsstring \<Rightarrow> 's \<Rightarrow> (jsstring + gql_json) \<times> 's"

record 's world =
  sent :: "jsstring list"
  remote :: 's

definition graphql :: "'s admin \<Rightarrow> jsstring \<Rightarrow> 's world \<Rightarrow> (jsstring + gql_json) \<times> 's world" where
  "graphql admin mutation w =
     (case admin mutation (remote w) of
        (r, s) \<Rightarrow> (r, \<lparr>sent = sent w @ [mutation], remote = s\<rparr>))"

section \<open>The row loop\<close>

text \<open>
  One pass of the body of \<^verbatim>\<open>for (const row of rows)\<close>: the line pushed to
  \<^verbatim>\<open>finalLog\<close> and the world after it. \<open>build\<close> is the module's mutation text and
  \<open>interpret\<close> its reading of the response. Past the \<^verbatim>\<open>continue\<close>, name, key and
  type are non-empty strings, which \<open>or_empty\<close> unwraps.
\<close>

definition row_step ::
  "(jsstring \<Rightarrow> jsstring \<Rightarrow> jsstring \<Rightarrow> jsstring \<Rightarrow> jsstring) \<Rightarrow>
   (jsstring \<Rightarrow> jsstring \<Rightarrow> jsstring + gql_json \<Rightarrow> jsstring) \<Rightarrow>
   's admin \<Rightarrow> CSVRow \<Rightarrow> 's world \<Rightarrow> jsstring \<times> 's world" where
  "row_step build interpret admin row w =
     (let name = trimmed row ''Name'';
          key = trimmed row ''Key'';
          typ = trimmed row ''Type'';
          description = or_empty (trimmed row ''Description'')
      in if falsy name \<or> falsy key \<or> falsy typ then (line_skipped, w)
         else
           (let mutation = build (or_empty name) (or_empty key) (or_empty typ) description
            in case graphql admin mutation w of
                 (r, w') \<Rightarrow> (interpret (or_empty name) (or_empty key) r, w')))"

fun process_rows ::
  "(jsstring \<Rightarrow> jsstring \<Rightarrow> jsstring \<Rightarrow> jsstring \<Rightarrow> jsstring) \<Rightarrow>
   (jsstring \<Rightarrow> jsstring \<Rightarrow> jsstring + gql_json \<Rightarrow> jsstring) \<Rightarrow>
   's admin \<Rightarrow> CSVRow list \<Rightarrow> jsstring list \<Rightarrow> 's world \<Rightarrow> jsstring list \<times> 's world" where
  "process_rows build interpret admin [] finalLog w = (finalLog, w)"
| "process_rows build interpret admin (row # rows) finalLog w =
     (case row_step build interpret admin row w of
        (line, w') \<Rightarrow> process_rows build interpret admin rows (finalLog @ [line]) w')"

section \<open>The two actions\<close>

text \<open>
  An action starts after \<^verbatim>\<open>authenticate.admin(request)\<close> and
  \<^verbatim>\<open>request.formData()\<close> have succeeded; both are outside the repository. The
  uploaded file is its bytes, \<open>None\<close> when the form has no file. The CSV decoder
  \<^verbatim>\<open>parse\<close> of the csv-parse package is a parameter: it gives the rows or throws
  (\<open>Inl\<close>). An action gives its returned object, or \<open>Inl e\<close> when \<open>e\<close> was thrown and
  nothing caught it, together with the world after it. The object of app._index.tsx has
  no \<^verbatim>\<open>status\<close> property (\<open>None\<close>).
\<close>

type_synonym bytes = "8 word list"

record result =
  status :: "jsstring option"
  log :: "jsstring list"

definition index_action ::
  "(bytes \<Rightarrow> 'e + CSVRow list) \<Rightarrow> type_error_message \<Rightarrow> 's admin \<Rightarrow> bytes option \<Rightarrow> 's world \<Rightarrow>
   ('e + result) \<times> 's world" where
  "index_action parse te admin csv w =
     (case csv of
        None \<Rightarrow> (Inr \<lparr>status = None, log = [line_no_file]\<rparr>, w)
      | Some buffer \<Rightarrow>
          (case parse buffer of
             Inl e \<Rightarrow> (Inl e, w)
           | Inr rows \<Rightarrow>
               if length (missingHeaders rows) > 0
               then (Inr \<lparr>status = None, log = index_invalid_log\<rparr>, w)
               else
                 (case process_rows index_mutation (index_interpret te) admin rows [] w of
                    (finalLog, w') \<Rightarrow> (Inr \<lparr>status = None, log = finalLog\<rparr>, w'))))"

definition part0_action ::
  "(bytes \<Rightarrow> 'e + CSVRow list) \<Rightarrow> 's admin \<Rightarrow> bytes option \<Rightarrow> 's world \<Rightarrow>
   ('e + result) \<times> 's world" where
  "part0_action parse admin csv w =
     (case csv of
        None \<Rightarrow> (Inr \<lparr>status = Some (js ''error''), log = [line_no_file]\<rparr>, w)
      | Some buffer \<Rightarrow>
          (case parse buffer of
             Inl e \<Rightarrow> (Inl e, w)
           | Inr rows \<Rightarrow>
               if length rows = 0
               then (Inr \<lparr>status = Some (js ''error''), log = [line_empty]\<rparr>, w)
               else if length (missingHeaders rows) > 0
               then (Inr \<lparr>status = Some (js ''error''), log = part0_invalid_log\<rparr>, w)
               else
                 (case process_rows part0_mutation part0_interpret admin rows [] w of
                    (finalLog, w') \<Rightarrow>
                      (Inr \<lparr>status = Some (js ''success''), log = finalLog\<rparr>, w'))))"

section \<open>Reading the payload's string literals\<close>

text \<open>
  What the specification means by a value not breaking out of its string literal, and by
  interpreting the escaped value: the receiver of the payload reads a quoted literal
  from the opening \<^verbatim>\<open>"\<close> to the next \<^verbatim>\<open>"\<close> that no backslash precedes, a backslash
  standing before a backslash or a quote for that character itself. \<open>spec_literals\<close>
  follows these words, not the source (the reader is the remote service): it gives the
  values of the quoted literals of a text, in order, and \<open>None\<close> for a text that ends
  inside a literal or has another escape. Its first argument is \<open>None\<close> outside a
  literal and, inside one, the value read so far, reversed.
\<close>

fun spec_literals_from :: "jsstring option \<Rightarrow> jsstring \<Rightarrow> jsstring list option" where
  "spec_literals_from None [] = Some []"
| "spec_literals_from None (c # cs) =
     (if c = quote then spec_literals_from (Some []) cs else spec_literals_from None cs)"
| "spec_literals_from (Some acc) [] = None"
| "spec_literals_from (Some acc) (c # cs) =
     (if c = quote then map_option ((#) (rev acc)) (spec_literals_from None cs)
      else if c = backslash then
        (case cs of
           [] \<Rightarrow> None
         | d # ds \<Rightarrow>
             if d = quote \<or> d = backslash then spec_literals_from (Some (d # acc)) ds else None)
      else spec_literals_from (Some (c # acc)) cs)"

definition spec_literals :: "jsstring \<Rightarrow> jsstring list option" where
  "spec_literals text = spec_literals_from None text"

section \<open>Reading the payload's definition objects\<close>

text \<open>
  What the specification means by the payload's namespace and owner type: the fields of
  the \<^verbatim>\<open>definition: { ... }\<close> input objects that the receiver of the payload reads in
  it. Like \<open>spec_literals\<close>, these definitions follow the specification's words, not the
  source. The text is first cut into tokens: the punctuation \<^verbatim>\<open>{ } ( ) :\<close>, names (runs
  of letters, digits and underscores) and quoted literals, read as by \<open>spec_literals\<close>;
  spaces, tabs, line ends and commas separate tokens; any other character outside a
  literal gives \<open>None\<close>.
\<close>

datatype token = Punct "16 word" | Ident jsstring | Str jsstring

datatype lexing = Outside | InName jsstring | InString jsstring

definition is_name_char :: "16 word \<Rightarrow> bool" where
  "is_name_char c \<longleftrightarrow>
     (0x41 \<le> c \<and> c \<le> 0x5A) \<or> (0x61 \<le> c \<and> c \<le> 0x7A) \<or> (0x30 \<le> c \<and> c \<le> 0x39) \<or> c = 0x5F"

definition is_punct :: "16 word \<Rightarrow> bool" where
  "is_punct c \<longleftrightarrow> c = 0x7B \<or> c = 0x7D \<or> c = 0x28 \<or> c = 0x29 \<or> c = 0x3A"

definition is_ignored :: "16 word \<Rightarrow> bool" where
  "is_ignored c \<longleftrightarrow> c = 0x20 \<or> c = 0x09 \<or> c = 0x0A \<or> c = 0x0D \<or> c = 0x2C"

fun spec_tokens_from :: "lexing \<Rightarrow> jsstring \<Rightarrow> token list option" where
  "spec_tokens_from Outside [] = Some []"
| "spec_tokens_from Outside (c # cs) =
     (if c = quote then spec_tokens_from (InString []) cs
      else if is_name_char c then spec_tokens_from (InName [c]) cs
      else if is_punct c then map_option ((#) (Punct c)) (spec_tokens_from Outside cs)
      else if is_ignored c then spec_tokens_from Outside cs
      else None)"
| "spec_tokens_from (InName acc) [] = Some [Ident (rev acc)]"
| "spec_tokens_from (InName acc) (c # cs) =
     (if is_name_char c then spec_tokens_from (InName (c # acc)) cs
      else if c = quote then
        map_option ((#) (Ident (rev acc))) (spec_tokens_from (InString []) cs)
      else if is_punct c then
        map_option (\<lambda>ts. Ident (rev acc) # Punct c # ts) (spec_tokens_from Outside cs)
      else if is_ignored c then
        map_option ((#) (Ident (rev acc))) (spec_tokens_from Outside cs)
      else None)"
| "spec_tokens_from (InString acc) [] = None"
| "spec_tokens_from (InString acc) (c # cs) =
     (if c = quote then map_option ((#) (Str (rev acc))) (spec_tokens_from Outside cs)
      else if c = backslash then
        (case cs of
           [] \<Rightarrow> None
         | d # ds \<Rightarrow>
             if d = quote \<or> d = backslash then spec_tokens_from (InString (d # acc)) ds else None)
      else spec_tokens_from (InString (c # acc)) cs)"

text \<open>
  Then every \<^verbatim>\<open>definition : {\<close> opens an object, read as fields \<^verbatim>\<open>name : value\<close> up
  to the closing brace, a value being a quoted literal or a bare name (an enum value).
  The first argument is \<open>None\<close> outside such an object and, inside one, its fields so
  far, reversed. The result lists the objects of the text in order, each with its
  fields in order, and is \<open>None\<close> for an object that is not of this form.
\<close>

fun spec_definitions_from ::
  "(jsstring \<times> token) list option \<Rightarrow> token list \<Rightarrow> (jsstring \<times> token) list list option" where
  "spec_definitions_from None [] = Some []"
| "spec_definitions_from None (Ident d # Punct c1 # Punct c2 # ts) =
     (if d = js ''definition'' \<and> c1 = 0x3A \<and> c2 = 0x7B then spec_definitions_from (Some []) ts
      else spec_definitions_from None (Punct c1 # Punct c2 # ts))"
| "spec_definitions_from None (t # ts) = spec_definitions_from None ts"
| "spec_definitions_from (Some acc) (Punct c # ts) =
     (if c = 0x7D then map_option ((#) (rev acc)) (spec_definitions_from None ts) else None)"
| "spec_definitions_from (Some acc) (Ident f # Punct c # Str v # ts) =
     (if c = 0x3A then spec_definitions_from (Some ((f, Str v) # acc)) ts else None)"
| "spec_definitions_from (Some acc) (Ident f # Punct c # Ident v # ts) =
     (if c = 0x3A then spec_definitions_from (Some ((f, Ident v) # acc)) ts else None)"
| "spec_definitions_from (Some acc) ts = None"

definition spec_definitions :: "jsstring \<Rightarrow> (jsstring \<times> token) list list option" where
  "spec_definitions text =
     (case spec_tokens_from Outside text of
        None \<Rightarrow> None
      | Some ts \<Rightarrow> spec_definitions_from None ts)"

section \<open>Notions of the specification\<close>

text \<open>
  The definitions of this section follow the words of the specification, not the source;
  the theorems compare the source's definitions with them.

  A field that is missing, empty or only whitespace.
\<close>

fun blank :: "jsstring option \<Rightarrow> bool" where
  "blank None = True"
| "blank (Some v) = list_all isWhiteSpace v"

text \<open>A row that is processed, that is, not skipped: none of its three required fields is blank.\<close>

definition processed :: "CSVRow \<Rightarrow> bool" where
  "processed row \<longleftrightarrow>
     \<not> blank (row (js ''Name'')) \<and> \<not> blank (row (js ''Key'')) \<and> \<not> blank (row (js ''Type''))"

text \<open>The trimmed name and key of a row, and the payload built for it.\<close>

definition row_name :: "CSVRow \<Rightarrow> jsstring" where
  "row_name row = or_empty (trimmed row ''Name'')"

definition row_key :: "CSVRow \<Rightarrow> jsstring" where
  "row_key row = or_empty (trimmed row ''Key'')"

definition row_mutation ::
  "(jsstring \<Rightarrow> jsstring \<Rightarrow> jsstring \<Rightarrow> jsstring \<Rightarrow> jsstring) \<Rightarrow> CSVRow \<Rightarrow> jsstring" where
  "row_mutation build row =
     build (or_empty (trimmed row ''Name'')) (or_empty (trimmed row ''Key''))
       (or_empty (trimmed row ''Type'')) (or_empty (trimmed row ''Description''))"

text \<open>
  The world in which the \<open>i\<close>-th row is processed, the rows before it done, and the
  outcome line of the \<open>i\<close>-th row.
\<close>

definition world_before ::
  "(jsstring \<Rightarrow> jsstring \<Rightarrow> jsstring \<Rightarrow> jsstring \<Rightarrow> jsstring) \<Rightarrow>
   (jsstring \<Rightarrow> jsstring \<Rightarrow> jsstring + gql_json \<Rightarrow> jsstring) \<Rightarrow>
   's admin \<Rightarrow> CSVRow list \<Rightarrow> 's world \<Rightarrow> nat \<Rightarrow> 's world" where
  "world_before build interpret admin rows w i =
     snd (process_rows build interpret admin (take i rows) [] w)"

definition outcome_line ::
  "(jsstring \<Rightarrow> jsstring \<Rightarrow> jsstring \<Rightarrow> jsstring \<Rightarrow> jsstring) \<Rightarrow>
   (jsstring \<Rightarrow> jsstring \<Rightarrow> jsstring + gql_json \<Rightarrow> jsstring) \<Rightarrow>
   's admin \<Rightarrow> CSVRow list \<Rightarrow> 's world \<Rightarrow> nat \<Rightarrow> jsstring" where
  "outcome_line build interpret admin rows w i =
     fst (row_step build interpret admin (rows ! i)
            (world_before build interpret admin rows w i))"

text \<open>
  The interpretation of a response as the specification words it: created when
  \<^verbatim>\<open>createdDefinition\<close> is present, else the joined messages of a non-empty
  \<^verbatim>\<open>userErrors\<close>, else unknown; a thrown error gives the failure line.
\<close>

fun spec_created_present :: "gql_json \<Rightarrow> bool" where
  "spec_created_present (Json (Value (Data (Value p)))) =
     (case createdDefinition p of Value c \<Rightarrow> True | _ \<Rightarrow> False)"
| "spec_created_present _ = False"

fun spec_error_messages :: "gql_json \<Rightarrow> jsstring list" where
  "spec_error_messages (Json (Value (Data (Value p)))) =
     (case userErrors p of Value es \<Rightarrow> map message es | _ \<Rightarrow> [])"
| "spec_error_messages _ = []"

definition spec_outcome_line :: "jsstring \<Rightarrow> jsstring \<Rightarrow> jsstring + gql_json \<Rightarrow> jsstring" where
  "spec_outcome_line name key r =
     (case r of
        Inl msg \<Rightarrow> line_failed name msg
      | Inr json \<Rightarrow>
          if spec_created_present json then line_created name key
          else if spec_error_messages json \<noteq> [] then line_user_errors name (spec_error_messages json)
          else line_unknown name)"

text \<open>A response whose JSON lacks \<^verbatim>\<open>data\<close> or \<^verbatim>\<open>data.metafieldDefinitionCreate\<close>.\<close>

fun lacks_payload :: "gql_json \<Rightarrow> bool" where
  "lacks_payload (Json (Value (Data (Value p)))) = False"
| "lacks_payload _ = True"

text \<open>A structural failure: no file uploaded, an empty file, or a missing required header.\<close>

definition spec_structural_failure :: "(bytes \<Rightarrow> 'e + CSVRow list) \<Rightarrow> bytes option \<Rightarrow> bool" where
  "spec_structural_failure parse csv =
     (case csv of
        None \<Rightarrow> True
      | Some buffer \<Rightarrow>
          (case parse buffer of
             Inl e \<Rightarrow> False
           | Inr rows \<Rightarrow> rows = [] \<or> missingHeaders rows \<noteq> []))"

text \<open>The status and the log of what an action returned, \<open>None\<close> when it threw.\<close>

definition result_status :: "('e + result) \<times> 's world \<Rightarrow> jsstring option" where
  "result_status x = (case fst x of Inl e \<Rightarrow> None | Inr r \<Rightarrow> status r)"

definition result_log :: "('e + result) \<times> 's world \<Rightarrow> jsstring list option" where
  "result_log x = (case fst x of Inl e \<Rightarrow> None | Inr r \<Rightarrow> Some (log r))"

section \<open>Example inputs\<close>

text \<open>The row of the specification's examples, and rows that are skipped or rejected.\<close>

definition color_row :: CSVRow where
  "color_row =
     [js ''Name'' \<mapsto> js ''Color'', js ''Key'' \<mapsto> js ''color'',
      js ''Type'' \<mapsto> js ''single_line_text_field'', js ''Description'' \<mapsto> []]"

definition blank_name_row :: CSVRow where
  "blank_name_row =
     [js ''Name'' \<mapsto> js ''  '', js ''Key'' \<mapsto> js ''size'',
      js ''Type'' \<mapsto> js ''single_line_text_field'', js ''Description'' \<mapsto> []]"

definition lowercase_row :: CSVRow where
  "lowercase_row =
     [js ''name'' \<mapsto> js ''Color'', js ''Key'' \<mapsto> js ''color'',
      js ''Type'' \<mapsto> js ''single_line_text_field'', js ''Extra'' \<mapsto> js ''x'']"

text \<open>
  A row whose name closes its literal and goes on with fields of its own, the end of the
  object, and the start of a second, aliased creation that takes up the rest of the
  template.
\<close>

definition injected_name :: jsstring where
  \<open>injected_name =
     js ''A" namespace: "evil" key: "k" type: "single_line_text_field" '' @
     js ''description: "B" ownerType: COLLECTION }) { createdDefinition { id } } '' @
     js ''second: metafieldDefinitionCreate(definition: { name: "x''\<close>

definition injected_row :: CSVRow where
  "injected_row =
     [js ''Name'' \<mapsto> injected_name, js ''Key'' \<mapsto> js ''color'',
      js ''Type'' \<mapsto> js ''single_line_text_field'', js ''Description'' \<mapsto> []]"

text \<open>A decoder that gives the rows \<open>rows\<close>, and one that throws \<open>e\<close>.\<close>

definition decoded :: "CSVRow list \<Rightarrow> bytes \<Rightarrow> string + CSVRow list" where
  "decoded rows buffer = Inr rows"

definition rejecting :: "string \<Rightarrow> bytes \<Rightarrow> string + CSVRow list" where
  "rejecting e buffer = Inl e"

text \<open>Simulated services: every exchange gives the same response.\<close>

definition responding :: "jsstring + gql_json \<Rightarrow> unit admin" where
  "responding r mutation s = (r, s)"

definition created_response :: "jsstring + gql_json" where
  "created_response =
     Inr (Json (Value (Data (Value
       \<lparr>createdDefinition =
          Value \<lparr>def_id = js ''gid://shopify/MetafieldDefinition/1'',
                 def_name = js ''Color'', def_key = js ''color''\<rparr>,
        userErrors = Value []\<rparr>))))"

definition key_exists_response :: "jsstring + gql_json" where
  "key_exists_response =
     Inr (Json (Value (Data (Value
       \<lparr>createdDefinition = Null,
        userErrors = Value [UserError (js ''Key already exists'')]\<rparr>))))"

definition no_data_response :: "jsstring + gql_json" where
  "no_data_response = Inr (Json Undefined)"

definition world0 :: "unit world" where
  "world0 = \<lparr>sent = [], remote = ()\<rparr>"

text \<open>The TypeError messages of the V8 engine.\<close>

definition v8_message :: type_error_message where
  "v8_message of_null p =
     js ''Cannot read properties of '' @ (if of_null then js ''null'' else js ''undefined'') @
     js '' (reading '' @ [0x27] @ js p @ [0x27] @ js '')''"

section \<open>Strings and trimming\<close>

lemma js_Nil [simp]: "js [] = []" by (simp add: js_def)
lemma js_Cons [simp]: "js (c # s) = of_char c # js s" by (simp add: js_def)

lemma of_char_word16_eq [simp]: "(of_char c :: 16 word) = of_char d \<longleftrightarrow> c = d"
proof
  assume eq: "(of_char c :: 16 word) = of_char d"
  have lt: "(of_char x :: nat) < 2 ^ LENGTH(16)" for x
    using nat_of_char_less_256 [of x] by (simp del: nat_of_char_less_256)
  have "(word_of_nat (of_char c) :: 16 word) = word_of_nat (of_char d)"
    using eq by (simp add: of_nat_of_char)
  then have "take_bit LENGTH(16) (of_char c :: nat) = take_bit LENGTH(16) (of_char d :: nat)"
    by (simp only: word_of_nat_eq_iff)
  then have "(of_char c :: nat) = of_char d"
    using lt [of c] lt [of d] by (simp only: take_bit_nat_eq_self)
  then show "c = d"
    by simp
qed simp

lemma js_eq_iff: "js a = js b \<longleftrightarrow> a = b"
  by (auto simp: js_def inj_on_def intro!: inj_onI dest!: map_inj_on [where f="of_char :: char \<Rightarrow> 16 word"])

lemma dropWhile_all: "list_all P xs \<Longrightarrow> dropWhile P xs = []"
  by (induction xs) auto

lemma trim_whitespace: "list_all isWhiteSpace v \<Longrightarrow> trim v = []"
  by (simp add: trim_def dropWhile_all)

lemma js_eq_Nil [simp]: "js s = [] \<longleftrightarrow> s = []"
  by (simp add: js_def)

lemma trim_eq_Nil_iff: "trim v = [] \<longleftrightarrow> list_all isWhiteSpace v"
proof
  assume "trim v = []"
  then have "dropWhile isWhiteSpace (rev (dropWhile isWhiteSpace v)) = []"
    by (simp add: trim_def)
  then have all: "\<forall>x \<in> set (dropWhile isWhiteSpace v). isWhiteSpace x"
    by simp
  have "dropWhile isWhiteSpace v = []"
  proof (rule ccontr)
    assume ne: "dropWhile isWhiteSpace v \<noteq> []"
    then have "\<not> isWhiteSpace (hd (dropWhile isWhiteSpace v))"
      by (rule hd_dropWhile)
    moreover have "hd (dropWhile isWhiteSpace v) \<in> set (dropWhile isWhiteSpace v)"
      using ne by simp
    ultimately show False
      using all by blast
  qed
  then show "list_all isWhiteSpace v"
    by (simp add: list_all_iff)
next
  assume "list_all isWhiteSpace v"
  then show "trim v = []"
    by (rule trim_whitespace)
qed

lemma falsy_trimmed: "falsy (trimmed row k) \<longleftrightarrow> blank (row (js k))"
  by (cases "row (js k)") (simp_all add: trimmed_def trim_eq_Nil_iff)

lemma skip_iff:
  "falsy (trimmed row ''Name'') \<or> falsy (trimmed row ''Key'') \<or> falsy (trimmed row ''Type'')
     \<longleftrightarrow> \<not> processed row"
  by (auto simp: falsy_trimmed processed_def)

section \<open>Escaping\<close>

lemma esc_Nil [simp]: "esc [] = []"
  by (simp add: esc_def replace_g_def)

lemma esc_Cons:
  "esc (c # v) =
     (if c = backslash then [backslash, backslash]
      else if c = quote then [backslash, quote] else [c]) @ esc v"
  by (simp add: esc_def replace_g_def quote_def backslash_def)

text \<open>Inside a literal, the escaped value up to the closing quote reads back as the value.\<close>

lemma literal_of_esc:
  "spec_literals_from (Some acc) (esc v @ quote # rest) =
     map_option ((#) (rev acc @ v)) (spec_literals_from None rest)"
  by (induction v arbitrary: acc) (auto simp: esc_Cons quote_def backslash_def)

lemma literal_of_esc_34:
  "spec_literals_from (Some acc) (esc v @ 34 # rest) =
     map_option ((#) (rev acc @ v)) (spec_literals_from None rest)"
  using literal_of_esc [of acc v rest] by (simp add: quote_def)

section \<open>The loop and its log\<close>

lemma process_rows_log:
  "process_rows build interpret admin rows finalLog w =
     (finalLog @ fst (process_rows build interpret admin rows [] w),
      snd (process_rows build interpret admin rows [] w))"
proof (induction rows arbitrary: finalLog w)
  case Nil
  show ?case by simp
next
  case (Cons row rows)
  obtain line w' where step: "row_step build interpret admin row w = (line, w')"
    by (cases "row_step build interpret admin row w")
  show ?case
    using Cons.IH [of "finalLog @ [line]" w'] Cons.IH [of "[line]" w']
    by (simp add: step)
qed

lemma process_rows_snoc:
  "process_rows build interpret admin (rows @ [row]) [] w =
     (case process_rows build interpret admin rows [] w of
        (finalLog, w') \<Rightarrow>
          (case row_step build interpret admin row w' of
             (line, w'') \<Rightarrow> (finalLog @ [line], w'')))"
proof (induction rows arbitrary: w)
  case Nil
  show ?case by (simp split: prod.splits)
next
  case (Cons r rows)
  obtain line w' where step: "row_step build interpret admin r w = (line, w')"
    by (cases "row_step build interpret admin r w")
  show ?case
    using Cons.IH [of w']
    by (simp add: step process_rows_log [of _ _ _ _ "[line]"] split: prod.splits)
qed

lemma outcome_line_append:
  "i < length rows \<Longrightarrow>
   outcome_line build interpret admin (rows @ rest) w i = outcome_line build interpret admin rows w i"
  by (simp add: outcome_line_def world_before_def nth_append)

lemma process_rows_lines:
  "fst (process_rows build interpret admin rows [] w) =
     map (outcome_line build interpret admin rows w) [0..<length rows]"
proof (induction rows rule: rev_induct)
  case Nil
  show ?case by simp
next
  case (snoc row rows)
  have last: "fst (row_step build interpret admin row (snd (process_rows build interpret admin rows [] w))) =
      outcome_line build interpret admin (rows @ [row]) w (length rows)"
    by (simp add: outcome_line_def world_before_def)
  have "fst (process_rows build interpret admin (rows @ [row]) [] w) =
      fst (process_rows build interpret admin rows [] w) @
      [fst (row_step build interpret admin row (snd (process_rows build interpret admin rows [] w)))]"
    by (simp add: process_rows_snoc split: prod.splits)
  also have "\<dots> = map (outcome_line build interpret admin (rows @ [row]) w) [0..<length rows] @
      [outcome_line build interpret admin (rows @ [row]) w (length rows)]"
    by (simp add: snoc.IH last outcome_line_append)
  finally show ?case by simp
qed

lemma missingHeaders_Nil: "missingHeaders [] \<noteq> []"
  by (simp add: missingHeaders_def headers_def requiredHeaders_def)

section \<open>The example inputs, evaluated\<close>

lemma color_row_fields:
  "trimmed color_row ''Name'' = Some (js ''Color'')"
  "trimmed color_row ''Key'' = Some (js ''color'')"
  "trimmed color_row ''Type'' = Some (js ''single_line_text_field'')"
  "trimmed color_row ''Description'' = Some []"
  by (simp_all add: trimmed_def color_row_def trim_def isWhiteSpace_def)

lemma row_step_color:
  "row_step build interpret (responding r) color_row w =
     (interpret (js ''Color'') (js ''color'') r,
      \<lparr>sent = sent w @ [build (js ''Color'') (js ''color'') (js ''single_line_text_field'') []],
       remote = remote w\<rparr>)"
  by (simp add: row_step_def Let_def color_row_fields graphql_def responding_def del: js_Cons)

lemma blank_name_row_fields: "trimmed blank_name_row ''Name'' = Some []"
  by (simp add: trimmed_def blank_name_row_def trim_def isWhiteSpace_def)

lemma row_step_blank_name:
  "row_step build interpret admin blank_name_row w = (line_skipped, w)"
  by (simp add: row_step_def Let_def blank_name_row_fields)

lemma dom_color_row: "dom color_row = {js ''Name'', js ''Key'', js ''Type'', js ''Description''}"
  by (auto simp: color_row_def)

lemma missingHeaders_color: "missingHeaders (color_row # rows) = []"
  by (simp add: missingHeaders_def headers_def requiredHeaders_def dom_color_row)

section \<open>One pass of the loop\<close>

lemma row_step_processed:
  "processed row \<Longrightarrow>
   row_step build interpret admin row w =
     (interpret (row_name row) (row_key row) (fst (graphql admin (row_mutation build row) w)),
      snd (graphql admin (row_mutation build row) w))"
  using skip_iff [of row]
  by (simp add: row_step_def Let_def row_name_def row_key_def row_mutation_def split: prod.splits)

lemma row_step_skipped:
  "\<not> processed row \<Longrightarrow> row_step build interpret admin row w = (line_skipped, w)"
  using skip_iff [of row] by (simp add: row_step_def Let_def)

lemma sent_graphql: "sent (snd (graphql admin mutation w)) = sent w @ [mutation]"
  by (simp add: graphql_def split: prod.splits)

lemma part0_interpret_spec: "part0_interpret name key r = spec_outcome_line name key r"
proof (cases r)
  case (Inl msg)
  then show ?thesis by (simp add: part0_interpret_def spec_outcome_line_def)
next
  case (Inr json)
  show ?thesis
  proof (cases "lacks_payload json")
    case True
    then show ?thesis
      using Inr
      by (cases json rule: lacks_payload.cases)
         (simp_all add: part0_interpret_def spec_outcome_line_def part0_read_def)
  next
    case False
    then obtain p where json: "json = Json (Value (Data (Value p)))"
      by (cases json rule: lacks_payload.cases) simp_all
    show ?thesis
    proof (cases "createdDefinition p")
      case (Value c)
      then show ?thesis
        using Inr json by (simp add: part0_interpret_def spec_outcome_line_def part0_read_def)
    next
      case Undefined
      then show ?thesis
        using Inr json
        by (cases "userErrors p"; cases "case userErrors p of Value es \<Rightarrow> es | _ \<Rightarrow> []")
           (simp_all add: part0_interpret_def spec_outcome_line_def part0_read_def)
    next
      case Null
      then show ?thesis
        using Inr json
        by (cases "userErrors p"; cases "case userErrors p of Value es \<Rightarrow> es | _ \<Rightarrow> []")
           (simp_all add: part0_interpret_def spec_outcome_line_def part0_read_def)
    qed
  qed
qed

lemma process_rows_processed:
  "processed row \<Longrightarrow>
   process_rows build interpret admin (row # rows) finalLog w =
   process_rows build interpret admin rows
     (finalLog @ [interpret (row_name row) (row_key row) (fst (graphql admin (row_mutation build row) w))])
     (snd (graphql admin (row_mutation build row) w))"
  by (simp add: row_step_processed)

lemma index_interpret_spec:
  "\<not> lacks_payload json \<Longrightarrow>
   index_interpret te name key (Inr json) = spec_outcome_line name key (Inr json)"
proof -
  assume "\<not> lacks_payload json"
  then obtain p where json: "json = Json (Value (Data (Value p)))"
    by (cases json rule: lacks_payload.cases) simp_all
  have "index_interpret te name key (Inr json) = report name key (createdDefinition p) (userErrors p)"
    by (simp add: json index_interpret_def index_read_def)
  also have "\<dots> = part0_interpret name key (Inr json)"
    by (simp add: json part0_interpret_def part0_read_def)
  finally show ?thesis
    by (simp add: part0_interpret_spec)
qed

lemma index_interpret_lacking:
  "lacks_payload json \<Longrightarrow>
   \<exists>of_null p. index_interpret te name key (Inr json) = line_failed name (te of_null p)"
  by (cases json rule: lacks_payload.cases)
     (auto simp: index_interpret_def index_read_def)

lemma part0_interpret_lacking:
  "lacks_payload json \<Longrightarrow> part0_interpret name key (Inr json) = line_unknown name"
  by (cases json rule: lacks_payload.cases)
     (auto simp: part0_interpret_def part0_read_def)

lemma line_failed_neq_unknown: "line_failed name msg \<noteq> line_unknown name'"
  by (simp add: line_failed_def line_unknown_def cross_mark_def warning_sign_def)

lemma color_examples:
  "result_log (part0_action (decoded [color_row]) (responding created_response) (Some []) world0) =
     Some [[0x2705] @ js '' Created metafield: Color (color)'']"
  "result_log (part0_action (decoded [color_row]) (responding key_exists_response) (Some []) world0) =
     Some [[0x26A0, 0xFE0F] @ js '' Color '' @ [0x2192] @ js '' Key already exists'']"
  "result_log (index_action (decoded [color_row]) v8_message (responding created_response) (Some []) world0) =
     Some [[0x2705] @ js '' Created metafield: Color (color)'']"
  "result_log (index_action (decoded [color_row]) v8_message (responding key_exists_response) (Some []) world0) =
     Some [[0x26A0, 0xFE0F] @ js '' Color '' @ [0x2192] @ js '' Key already exists'']"
  "result_log (index_action (decoded [color_row]) v8_message (responding no_data_response) (Some []) world0) =
     Some [[0x274C] @ js '' Failed for Color '' @ [0x2192] @
           js '' Cannot read properties of undefined (reading '' @ [0x27] @
           js ''metafieldDefinitionCreate'' @ [0x27] @ js '')'']"
  "spec_outcome_line (js ''Color'') (js ''color'') no_data_response =
     [0x26A0, 0xFE0F] @ js '' Unknown response for Color''"
  by (simp_all add: result_log_def part0_action_def index_action_def decoded_def missingHeaders_color
      row_step_color part0_interpret_def part0_read_def index_interpret_def index_read_def
      created_response_def key_exists_response_def no_data_response_def spec_outcome_line_def
      line_created_def line_user_errors_def line_failed_def line_unknown_def
      check_mark_def warning_sign_def cross_mark_def arrow_def v8_message_def)

lemma processed_color_row: "processed color_row"
  using skip_iff [of color_row] by (simp add: color_row_fields)

lemma missingHeaders_Cons_iff:
  "missingHeaders (row # rows) = [] \<longleftrightarrow>
     js ''Name'' \<in> dom row \<and> js ''Key'' \<in> dom row \<and> js ''Type'' \<in> dom row"
  by (simp add: missingHeaders_def headers_def requiredHeaders_def del: js_Cons)

section \<open>The description and the definition object of the payload\<close>

lemma trimmed_upd_other:
  "k \<noteq> ''Description'' \<Longrightarrow> trimmed (row(js ''Description'' := d)) k = trimmed row k"
  by (simp add: trimmed_def js_eq_iff del: js_Cons)

lemma description_blank:
  "blank d \<Longrightarrow> or_empty (trimmed (row(js ''Description'' := d)) ''Description'') = []"
  by (cases d) (simp_all add: trimmed_def trim_whitespace)

lemma row_step_description:
  assumes "blank d"
  shows "row_step build interpret admin (row(js ''Description'' := d)) w =
         row_step build interpret admin (row(js ''Description'' := None)) w"
  using assms
  by (simp add: row_step_def trimmed_upd_other description_blank del: js_Cons)

lemma sent_row_step:
  "processed row \<Longrightarrow>
   sent (snd (row_step build interpret admin row w)) =
     sent w @ [build (or_empty (trimmed row ''Name'')) (or_empty (trimmed row ''Key''))
                 (or_empty (trimmed row ''Type'')) (or_empty (trimmed row ''Description''))]"
  by (simp add: row_step_processed sent_graphql row_mutation_def)

lemma processed_upd_description:
  "processed (row(js ''Description'' := d)) \<longleftrightarrow> processed row"
  by (simp add: processed_def js_eq_iff del: js_Cons)

text \<open>Inside a literal, the lexer reads the escaped value back as \<open>literal_of_esc\<close> does.\<close>

lemma string_of_esc:
  "spec_tokens_from (InString acc) (esc v @ quote # rest) =
     map_option ((#) (Str (rev acc @ v))) (spec_tokens_from Outside rest)"
  by (induction v arbitrary: acc) (auto simp: esc_Cons quote_def backslash_def)

lemma string_of_esc_34:
  "spec_tokens_from (InString acc) (esc v @ 34 # rest) =
     map_option ((#) (Str (rev acc @ v))) (spec_tokens_from Outside rest)"
  using string_of_esc [of acc v rest] by (simp add: quote_def)

lemma part0_tokens:
  "spec_tokens_from Outside (part0_mutation name key typ description) =
     Some [Ident (js ''mutation''), Punct 0x7B, Ident (js ''metafieldDefinitionCreate''), Punct 0x28,
           Ident (js ''definition''), Punct 0x3A, Punct 0x7B,
           Ident (js ''name''), Punct 0x3A, Str name,
           Ident (js ''namespace''), Punct 0x3A, Str (js ''custom''),
           Ident (js ''key''), Punct 0x3A, Str key,
           Ident (js ''type''), Punct 0x3A, Str typ,
           Ident (js ''description''), Punct 0x3A, Str description,
           Ident (js ''ownerType''), Punct 0x3A, Ident (js ''PRODUCT''),
           Punct 0x7D, Punct 0x29, Punct 0x7B,
           Ident (js ''createdDefinition''), Punct 0x7B, Ident (js ''id''), Ident (js ''name''),
           Ident (js ''key''), Punct 0x7D,
           Ident (js ''userErrors''), Punct 0x7B, Ident (js ''message''), Punct 0x7D,
           Punct 0x7D, Punct 0x7D]"
  unfolding part0_mutation_def mutation_template_def
  by (simp add: string_of_esc_34 quote_def backslash_def is_name_char_def is_punct_def is_ignored_def)

lemma part0_definitions:
  "spec_definitions (part0_mutation name key typ description) =
     Some [[(js ''name'', Str name), (js ''namespace'', Str (js ''custom'')),
            (js ''key'', Str key), (js ''type'', Str typ),
            (js ''description'', Str description),
            (js ''ownerType'', Ident (js ''PRODUCT''))]]"
  by (simp add: spec_definitions_def part0_tokens)

lemma injected_row_fields:
  "trimmed injected_row ''Name'' = Some injected_name"
  "trimmed injected_row ''Key'' = Some (js ''color'')"
  "trimmed injected_row ''Type'' = Some (js ''single_line_text_field'')"
  "trimmed injected_row ''Description'' = Some []"
  by (simp_all add: trimmed_def injected_row_def injected_name_def trim_def isWhiteSpace_def)

lemma row_step_injected:
  "row_step build interpret (responding r) injected_row w =
     (interpret injected_name (js ''color'') r,
      \<lparr>sent = sent w @ [build injected_name (js ''color'') (js ''single_line_text_field'') []],
       remote = remote w\<rparr>)"
proof -
  have "injected_name \<noteq> []"
    by (simp add: injected_name_def)
  then show ?thesis
    by (simp add: row_step_def Let_def injected_row_fields graphql_def responding_def del: js_Cons)
qed

lemma index_injected_definitions:
  "spec_definitions (index_mutation injected_name (js ''color'') (js ''single_line_text_field'') []) =
     Some [[(js ''name'', Str (js ''A'')), (js ''namespace'', Str (js ''evil'')),
            (js ''key'', Str (js ''k'')), (js ''type'', Str (js ''single_line_text_field'')),
            (js ''description'', Str (js ''B'')), (js ''ownerType'', Ident (js ''COLLECTION''))],
           [(js ''name'', Str (js ''x'')), (js ''namespace'', Str (js ''custom'')),
            (js ''key'', Str (js ''color'')), (js ''type'', Str (js ''single_line_text_field'')),
            (js ''description'', Str []), (js ''ownerType'', Ident (js ''PRODUCT''))]]"
  unfolding spec_definitions_def index_mutation_def mutation_template_def injected_name_def
  by (simp add: quote_def backslash_def is_name_char_def is_punct_def is_ignored_def)

section \<open>The claims\<close>

text \<open>
  C1. A value with a double quote or a backslash must not break out of its string
  literal in the payload: read back, the literal is the trimmed value again. The
  payload of part_000 has, for all four values whatever they contain, exactly the five
  literals name, \<^verbatim>\<open>custom\<close>, key, type and description. The payload of app._index.tsx,
  which does not escape, breaks for the name \<^verbatim>\<open>Say "hi"\<close>: its first literal is
  \<^verbatim>\<open>Say \<close>, the rest of the name stands outside any literal, and an empty literal follows.
\<close>

theorem C1_escaping:
  \<open>spec_literals (part0_mutation name key typ description) =
      Some [name, js ''custom'', key, typ, description] \<and>
   spec_literals
      (index_mutation (js ''Say "hi"'') (js ''greeting'') (js ''single_line_text_field'') []) =
      Some [js ''Say '', [], js ''custom'', js ''greeting'', js ''single_line_text_field'', []]\<close>
proof
  show "spec_literals (part0_mutation name key typ description) =
      Some [name, js ''custom'', key, typ, description]"
    unfolding spec_literals_def part0_mutation_def mutation_template_def
    by (simp add: literal_of_esc_34 quote_def backslash_def)
  show \<open>spec_literals
      (index_mutation (js ''Say "hi"'') (js ''greeting'') (js ''single_line_text_field'') []) =
      Some [js ''Say '', [], js ''custom'', js ''greeting'', js ''single_line_text_field'', []]\<close>
    unfolding spec_literals_def index_mutation_def mutation_template_def
    by (simp add: quote_def backslash_def)
qed

text \<open>
  C2. When the decoder gives \<open>N\<close> rows and no required header is missing from them (the
  headers being those of the first row, none when there is no row), the log returned
  has exactly \<open>N\<close> entries and its \<open>i\<close>-th entry is the outcome line of the \<open>i\<close>-th row, in
  both modules.
\<close>

theorem C2_log_order:
  assumes "parse buffer = Inr rows" and "missingHeaders rows = []"
  shows "result_log (index_action parse te admin (Some buffer) w) =
           Some (map (outcome_line index_mutation (index_interpret te) admin rows w) [0..<length rows]) \<and>
         result_log (part0_action parse admin (Some buffer) w) =
           Some (map (outcome_line part0_mutation part0_interpret admin rows w) [0..<length rows])"
proof -
  have "rows \<noteq> []"
    using assms(2) missingHeaders_Nil by auto
  then show ?thesis
    using assms
    by (simp add: result_log_def index_action_def part0_action_def
        process_rows_lines [symmetric] split: prod.splits)
qed

theorem C2_log_order_witness:
  "decoded [color_row, blank_name_row] [] = Inr [color_row, blank_name_row] \<and>
   missingHeaders [color_row, blank_name_row] = [] \<and>
   result_log (index_action (decoded [color_row, blank_name_row]) v8_message
       (responding created_response) (Some []) world0) =
     Some [line_created (js ''Color'') (js ''color''), line_skipped] \<and>
   result_log (part0_action (decoded [color_row, blank_name_row])
       (responding created_response) (Some []) world0) =
     Some [line_created (js ''Color'') (js ''color''), line_skipped]"
proof -
  have h1: "decoded [color_row, blank_name_row] [] = Inr [color_row, blank_name_row]"
    by (simp add: decoded_def)
  have h2: "missingHeaders [color_row, blank_name_row] = []"
    by (rule missingHeaders_color)
  have index: "map (outcome_line index_mutation (index_interpret v8_message)
        (responding created_response) [color_row, blank_name_row] world0)
        [0..<length [color_row, blank_name_row]] =
      [line_created (js ''Color'') (js ''color''), line_skipped]"
    by (simp add: outcome_line_def world_before_def upt_rec row_step_color row_step_blank_name
        index_interpret_def index_read_def created_response_def del: js_Cons)
  have part0: "map (outcome_line part0_mutation part0_interpret
        (responding created_response) [color_row, blank_name_row] world0)
        [0..<length [color_row, blank_name_row]] =
      [line_created (js ''Color'') (js ''color''), line_skipped]"
    by (simp add: outcome_line_def world_before_def upt_rec row_step_color row_step_blank_name
        part0_interpret_def part0_read_def created_response_def del: js_Cons)
  show ?thesis
    using h1 h2
      C2_log_order [where parse = "decoded [color_row, blank_name_row]" and buffer = "[]"
        and rows = "[color_row, blank_name_row]" and te = v8_message
        and admin = "responding created_response" and w = world0, OF h1 h2]
    by (simp only: index part0)
qed

text \<open>
  C3. For every processed row exactly one line is appended, after one exchange with the
  service (which adds the row's payload to what was sent), determined by the response:
  the created line when \<^verbatim>\<open>createdDefinition\<close> is present, else the line joining the
  messages of a non-empty \<^verbatim>\<open>userErrors\<close>, else the unknown-response line, and the
  failure line with the exception's message when the exchange throws. part_000 does so
  for every response, and both modules give the two lines of the specification's
  examples for the row Color. app._index.tsx does so for a thrown error and for a
  response that carries \<^verbatim>\<open>data.metafieldDefinitionCreate\<close>; for a response without
  \<^verbatim>\<open>data\<close> it appends the failure line with the engine's TypeError message where the
  claim has the unknown-response line.
\<close>

theorem C3_interpretation:
  "part0_interpret name key r = spec_outcome_line name key r \<and>
   (processed row \<longrightarrow>
      process_rows part0_mutation part0_interpret admin (row # rows) finalLog w =
      process_rows part0_mutation part0_interpret admin rows
        (finalLog @ [spec_outcome_line (row_name row) (row_key row)
                       (fst (graphql admin (row_mutation part0_mutation row) w))])
        (snd (graphql admin (row_mutation part0_mutation row) w))) \<and>
   sent (snd (graphql admin mutation w)) = sent w @ [mutation] \<and>
   index_interpret te name key (Inl msg) = spec_outcome_line name key (Inl msg) \<and>
   (\<not> lacks_payload json \<longrightarrow>
      index_interpret te name key (Inr json) = spec_outcome_line name key (Inr json)) \<and>
   result_log (part0_action (decoded [color_row]) (responding created_response) (Some []) world0) =
     Some [[0x2705] @ js '' Created metafield: Color (color)''] \<and>
   result_log (part0_action (decoded [color_row]) (responding key_exists_response) (Some []) world0) =
     Some [[0x26A0, 0xFE0F] @ js '' Color '' @ [0x2192] @ js '' Key already exists''] \<and>
   result_log (index_action (decoded [color_row]) v8_message (responding created_response) (Some []) world0) =
     Some [[0x2705] @ js '' Created metafield: Color (color)''] \<and>
   result_log (index_action (decoded [color_row]) v8_message (responding key_exists_response) (Some []) world0) =
     Some [[0x26A0, 0xFE0F] @ js '' Color '' @ [0x2192] @ js '' Key already exists''] \<and>
   spec_outcome_line (js ''Color'') (js ''color'') no_data_response =
     [0x26A0, 0xFE0F] @ js '' Unknown response for Color'' \<and>
   result_log (index_action (decoded [color_row]) v8_message (responding no_data_response) (Some []) world0) =
     Some [[0x274C] @ js '' Failed for Color '' @ [0x2192] @
           js '' Cannot read properties of undefined (reading '' @ [0x27] @
           js ''metafieldDefinitionCreate'' @ [0x27] @ js '')'']"
proof (intro conjI impI)
  show "index_interpret te name key (Inl msg) = spec_outcome_line name key (Inl msg)"
    by (simp add: index_interpret_def spec_outcome_line_def)
  show "index_interpret te name key (Inr json) = spec_outcome_line name key (Inr json)"
    if "\<not> lacks_payload json"
    using that by (rule index_interpret_spec)
  show "process_rows part0_mutation part0_interpret admin (row # rows) finalLog w =
      process_rows part0_mutation part0_interpret admin rows
        (finalLog @ [spec_outcome_line (row_name row) (row_key row)
                       (fst (graphql admin (row_mutation part0_mutation row) w))])
        (snd (graphql admin (row_mutation part0_mutation row) w))"
    if "processed row"
    using that by (simp only: process_rows_processed part0_interpret_spec)
qed (simp_all only: part0_interpret_spec color_examples sent_graphql)

theorem C3_interpretation_witness:
  "processed color_row \<and>
   \<not> lacks_payload (Json (Value (Data (Value
       \<lparr>createdDefinition = Null, userErrors = Value [UserError (js ''Key already exists'')]\<rparr>)))) \<and>
   process_rows part0_mutation part0_interpret (responding key_exists_response) [color_row] [] world0 =
     ([[0x26A0, 0xFE0F] @ js '' Color '' @ [0x2192] @ js '' Key already exists''],
      \<lparr>sent = [part0_mutation (js ''Color'') (js ''color'') (js ''single_line_text_field'') []],
       remote = ()\<rparr>) \<and>
   index_interpret v8_message (js ''Color'') (js ''color'') key_exists_response =
     [0x26A0, 0xFE0F] @ js '' Color '' @ [0x2192] @ js '' Key already exists''"
proof -
  let ?json = "Json (Value (Data (Value
       \<lparr>createdDefinition = Null, userErrors = Value [UserError (js ''Key already exists'')]\<rparr>)))"
  have h1: "processed color_row"
    by (rule processed_color_row)
  have h2: "\<not> lacks_payload ?json"
    by simp
  have out: "spec_outcome_line (js ''Color'') (js ''color'') (Inr ?json) =
      [0x26A0, 0xFE0F] @ js '' Color '' @ [0x2192] @ js '' Key already exists''"
    by (simp add: spec_outcome_line_def line_user_errors_def warning_sign_def arrow_def)
  have fields: "row_name color_row = js ''Color''" "row_key color_row = js ''color''"
    "row_mutation part0_mutation color_row =
       part0_mutation (js ''Color'') (js ''color'') (js ''single_line_text_field'') []"
    by (simp_all add: row_name_def row_key_def row_mutation_def color_row_fields del: js_Cons)
  have exchange: "graphql (responding key_exists_response) m world0 =
      (Inr ?json, \<lparr>sent = [m], remote = ()\<rparr>)" for m
    by (simp add: graphql_def responding_def key_exists_response_def world0_def)
  note inst = C3_interpretation [where row = color_row and rows = "[]" and finalLog = "[]"
      and w = world0 and admin = "responding key_exists_response" and json = ?json
      and te = v8_message and name = "js ''Color''" and key = "js ''color''"]
  have loop: "process_rows part0_mutation part0_interpret (responding key_exists_response) [color_row] [] world0 =
     ([[0x26A0, 0xFE0F] @ js '' Color '' @ [0x2192] @ js '' Key already exists''],
      \<lparr>sent = [part0_mutation (js ''Color'') (js ''color'') (js ''single_line_text_field'') []],
       remote = ()\<rparr>)"
    using inst h1 by (simp add: fields exchange out del: js_Cons)
  have index: "index_interpret v8_message (js ''Color'') (js ''color'') key_exists_response =
     [0x26A0, 0xFE0F] @ js '' Color '' @ [0x2192] @ js '' Key already exists''"
    using inst h2 out by (simp add: key_exists_response_def del: js_Cons)
  show ?thesis
    using h1 h2 loop index by blast
qed

text \<open>
  C4. A CSV that decodes to zero rows. In part_000 the action returns the
  \<^verbatim>\<open>CSV file is empty\<close> error, before the header check, and sends nothing. In
  app._index.tsx there is no such check: the header check runs on the empty header set
  and the action returns the invalid-format log of that module, and sends nothing.
\<close>

theorem C4_empty_csv:
  assumes "parse buffer = Inr []"
  shows "part0_action parse admin (Some buffer) w =
           (Inr \<lparr>status = Some (js ''error''), log = [line_empty]\<rparr>, w) \<and>
         index_action parse te admin (Some buffer) w =
           (Inr \<lparr>status = None, log = index_invalid_log\<rparr>, w)"
  using assms missingHeaders_Nil
  by (simp add: part0_action_def index_action_def)

theorem C4_empty_csv_witness:
  "decoded [] [] = Inr [] \<and>
   part0_action (decoded []) (responding created_response) (Some []) world0 =
     (Inr \<lparr>status = Some (js ''error''), log = [[0x274C] @ js '' CSV file is empty'']\<rparr>,
      \<lparr>sent = [], remote = ()\<rparr>) \<and>
   index_action (decoded []) v8_message (responding created_response) (Some []) world0 =
     (Inr \<lparr>status = None, log = index_invalid_log\<rparr>, \<lparr>sent = [], remote = ()\<rparr>)"
proof -
  have h: "decoded [] [] = Inr []"
    by (simp add: decoded_def)
  show ?thesis
    using h C4_empty_csv [where parse = "decoded []" and buffer = "[]" and te = v8_message
        and admin = "responding created_response" and w = world0, OF h]
    by (simp add: world0_def line_empty_def cross_mark_def)
qed

text \<open>
  C4 as stated fails for app._index.tsx: on zero rows its log is not the
  \<^verbatim>\<open>CSV file is empty\<close> line.
\<close>

theorem C4_empty_csv_counterexample:
  "decoded [] [] = Inr [] \<and>
   result_log (index_action (decoded []) v8_message (responding created_response) (Some []) world0)
     \<noteq> Some [line_empty]"
  by (simp add: decoded_def result_log_def index_action_def missingHeaders_def headers_def
      requiredHeaders_def index_invalid_log_def)

text \<open>
  C5. A row whose Name, Key or Type is missing, empty or only whitespace gets exactly the
  skip line, nothing is sent for it (the world is unchanged), and the loop goes on with
  the next row, in both modules.
\<close>

theorem C5_skipped_row:
  assumes "k = ''Name'' \<or> k = ''Key'' \<or> k = ''Type''" and "blank (row (js k))"
  shows "row_step index_mutation (index_interpret te) admin row w = (line_skipped, w) \<and>
         row_step part0_mutation part0_interpret admin row w = (line_skipped, w) \<and>
         process_rows index_mutation (index_interpret te) admin (row # rows) finalLog w =
           process_rows index_mutation (index_interpret te) admin rows (finalLog @ [line_skipped]) w \<and>
         process_rows part0_mutation part0_interpret admin (row # rows) finalLog w =
           process_rows part0_mutation part0_interpret admin rows (finalLog @ [line_skipped]) w"
proof -
  have "\<not> processed row"
    using assms by (auto simp: processed_def)
  then show ?thesis
    by (simp add: row_step_skipped)
qed

theorem C5_skipped_row_witness:
  "(''Name'' = ''Name'' \<or> ''Name'' = ''Key'' \<or> ''Name'' = ''Type'') \<and>
   blank (blank_name_row (js ''Name'')) \<and>
   process_rows part0_mutation part0_interpret (responding created_response)
       [blank_name_row, color_row] [] world0 =
     ([[0x26A0, 0xFE0F] @ js '' Skipped row '' @ [0x2014] @ js '' missing name/key/type'',
       [0x2705] @ js '' Created metafield: Color (color)''],
      \<lparr>sent = [part0_mutation (js ''Color'') (js ''color'') (js ''single_line_text_field'') []],
       remote = ()\<rparr>) \<and>
   row_step index_mutation (index_interpret v8_message) (responding created_response)
       blank_name_row world0 =
     ([0x26A0, 0xFE0F] @ js '' Skipped row '' @ [0x2014] @ js '' missing name/key/type'', world0)"
proof -
  have h1: "''Name'' = ''Name'' \<or> ''Name'' = ''Key'' \<or> ''Name'' = ''Type''"
    by simp
  have h2: "blank (blank_name_row (js ''Name''))"
    by (simp add: blank_name_row_def isWhiteSpace_def)
  note inst = C5_skipped_row [where k = "''Name''" and row = blank_name_row
      and rows = "[color_row]" and finalLog = "[]" and w = world0 and te = v8_message
      and admin = "responding created_response", OF h1 h2]
  have line: "line_skipped =
      [0x26A0, 0xFE0F] @ js '' Skipped row '' @ [0x2014] @ js '' missing name/key/type''"
    by (simp add: line_skipped_def warning_sign_def em_dash_def)
  have created: "part0_interpret (js ''Color'') (js ''color'') created_response =
      [0x2705] @ js '' Created metafield: Color (color)''"
    by (simp add: part0_interpret_def part0_read_def created_response_def line_created_def
        check_mark_def)
  have loop: "process_rows part0_mutation part0_interpret (responding created_response)
       [blank_name_row, color_row] [] world0 =
     ([line_skipped, part0_interpret (js ''Color'') (js ''color'') created_response],
      \<lparr>sent = [part0_mutation (js ''Color'') (js ''color'') (js ''single_line_text_field'') []],
       remote = ()\<rparr>)"
    using inst by (simp add: row_step_color world0_def del: js_Cons)
  show ?thesis
    using h1 h2 inst loop by (simp only: line created)
qed

text \<open>
  C6. When one of the names \<^verbatim>\<open>Name\<close>, \<^verbatim>\<open>Key\<close>, \<^verbatim>\<open>Type\<close> is not a column of the first
  row, each action returns the fixed log of its module, sends nothing and processes no
  row. The check is on the presence of these three exact names only: whatever other
  columns a row has, it passes exactly when the three are among its columns.
\<close>

theorem C6_missing_header:
  assumes "parse buffer = Inr (row # rows)"
    and "h = ''Name'' \<or> h = ''Key'' \<or> h = ''Type''"
    and "row (js h) = None"
  shows "index_action parse te admin (Some buffer) w =
           (Inr \<lparr>status = None, log = index_invalid_log\<rparr>, w) \<and>
         part0_action parse admin (Some buffer) w =
           (Inr \<lparr>status = Some (js ''error''), log = part0_invalid_log\<rparr>, w) \<and>
         (missingHeaders (row' # rows') = [] \<longleftrightarrow>
            js ''Name'' \<in> dom row' \<and> js ''Key'' \<in> dom row' \<and> js ''Type'' \<in> dom row')"
proof -
  have "missingHeaders (row # rows) \<noteq> []"
    using assms(2,3) by (auto simp: missingHeaders_Cons_iff)
  then show ?thesis
    using assms(1) by (simp add: index_action_def part0_action_def missingHeaders_Cons_iff)
qed

theorem C6_missing_header_witness:
  "decoded [lowercase_row, color_row] [] = Inr [lowercase_row, color_row] \<and>
   (''Name'' = ''Name'' \<or> ''Name'' = ''Key'' \<or> ''Name'' = ''Type'') \<and>
   lowercase_row (js ''Name'') = None \<and>
   index_action (decoded [lowercase_row, color_row]) v8_message (responding created_response)
       (Some []) world0 =
     (Inr \<lparr>status = None,
           log = [[0x274C] @ js '' Invalid CSV format.'',
                  js ''This app only accepts a Metafield Definitions CSV.'',
                  js ''Required columns:'', js ''Name, Key, Type, Description'', [], [], []]\<rparr>,
      \<lparr>sent = [], remote = ()\<rparr>) \<and>
   part0_action (decoded [lowercase_row, color_row]) (responding created_response)
       (Some []) world0 =
     (Inr \<lparr>status = Some (js ''error''),
           log = [[0x274C] @ js '' Invalid CSV format.'', js ''Required columns:'',
                  js ''Name, Key, Type, Description'']\<rparr>,
      \<lparr>sent = [], remote = ()\<rparr>) \<and>
   missingHeaders [color_row] = []"
proof -
  have h1: "decoded [lowercase_row, color_row] [] = Inr [lowercase_row, color_row]"
    by (simp add: decoded_def)
  have h2: "''Name'' = ''Name'' \<or> ''Name'' = ''Key'' \<or> ''Name'' = ''Type''"
    by simp
  have h3: "lowercase_row (js ''Name'') = None"
    by (simp add: lowercase_row_def)
  note inst = C6_missing_header [where parse = "decoded [lowercase_row, color_row]"
      and buffer = "[]" and row = lowercase_row and rows = "[color_row]" and h = "''Name''"
      and te = v8_message and admin = "responding created_response" and w = world0
      and row' = color_row and rows' = "[]", OF h1 h2 h3]
  have logs:
    "index_invalid_log = [[0x274C] @ js '' Invalid CSV format.'',
        js ''This app only accepts a Metafield Definitions CSV.'',
        js ''Required columns:'', js ''Name, Key, Type, Description'', [], [], []]"
    "part0_invalid_log = [[0x274C] @ js '' Invalid CSV format.'', js ''Required columns:'',
        js ''Name, Key, Type, Description'']"
    by (simp_all add: index_invalid_log_def part0_invalid_log_def cross_mark_def)
  have dom: "js ''Name'' \<in> dom color_row \<and> js ''Key'' \<in> dom color_row \<and> js ''Type'' \<in> dom color_row"
    by (simp add: dom_color_row del: js_Cons)
  show ?thesis
    using h1 h2 h3 inst dom by (simp only: logs world0_def)
qed

text \<open>
  C7. In part_000 the status of the returned object is \<^verbatim>\<open>error\<close> exactly when there
  was a structural failure (no file, no rows, a missing required header) and
  \<^verbatim>\<open>success\<close> otherwise, whatever the rows' outcomes. The object returned by
  app._index.tsx has no status at all.
\<close>

theorem C7_status:
  "(fst (part0_action parse admin csv w) = Inr r \<longrightarrow>
      status r = Some (if spec_structural_failure parse csv then js ''error'' else js ''success'')) \<and>
   js ''error'' \<noteq> js ''success'' \<and>
   result_status (index_action parse te admin csv w) = None"
proof (intro conjI impI)
  show "status r = Some (if spec_structural_failure parse csv then js ''error'' else js ''success'')"
    if "fst (part0_action parse admin csv w) = Inr r"
    using that
    by (auto simp: part0_action_def spec_structural_failure_def
        split: option.splits sum.splits if_splits prod.splits)
  show "js ''error'' \<noteq> js ''success''"
    by simp
  show "result_status (index_action parse te admin csv w) = None"
    by (auto simp: result_status_def index_action_def split: option.splits sum.splits prod.splits)
qed

theorem C7_status_witness:
  "fst (part0_action (decoded [color_row, blank_name_row]) (responding (Inl (js ''fetch failed'')))
         (Some []) world0) =
     Inr \<lparr>status = Some (js ''success''),
          log = [line_failed (js ''Color'') (js ''fetch failed''), line_skipped]\<rparr> \<and>
   \<not> spec_structural_failure (decoded [color_row, blank_name_row]) (Some []) \<and>
   fst (part0_action (decoded [color_row, blank_name_row]) (responding created_response) None world0) =
     Inr \<lparr>status = Some (js ''error''), log = [line_no_file]\<rparr> \<and>
   spec_structural_failure (decoded [color_row, blank_name_row]) None"
proof -
  let ?parse = "decoded [color_row, blank_name_row]"
  let ?r = "\<lparr>status = Some (js ''success''),
          log = [line_failed (js ''Color'') (js ''fetch failed''), line_skipped]\<rparr>"
  let ?r' = "\<lparr>status = Some (js ''error''), log = [line_no_file]\<rparr>"
  have h1: "fst (part0_action ?parse (responding (Inl (js ''fetch failed''))) (Some []) world0) = Inr ?r"
    by (simp add: part0_action_def decoded_def missingHeaders_color row_step_color
        row_step_blank_name part0_interpret_def del: js_Cons)
  have h2: "fst (part0_action ?parse (responding created_response) None world0) = Inr ?r'"
    by (simp add: part0_action_def)
  have s1: "\<not> spec_structural_failure ?parse (Some [])"
    using h1 C7_status [where parse = ?parse and admin = "responding (Inl (js ''fetch failed''))"
        and csv = "Some []" and w = world0 and r = ?r]
    by (auto split: if_splits)
  have s2: "spec_structural_failure ?parse None"
    using h2 C7_status [where parse = ?parse and admin = "responding created_response"
        and csv = None and w = world0 and r = ?r']
    by (auto split: if_splits)
  show ?thesis
    using h1 h2 s1 s2 by blast
qed

text \<open>
  C7 as stated fails for app._index.tsx: with no file uploaded, a structural failure,
  the status of its result is not \<^verbatim>\<open>error\<close>.
\<close>

theorem C7_status_counterexample:
  "spec_structural_failure (decoded [color_row]) None \<and>
   result_status (index_action (decoded [color_row]) v8_message (responding created_response)
       None world0) \<noteq> Some (js ''error'')"
  by (simp add: spec_structural_failure_def result_status_def index_action_def)

text \<open>
  C8. When the decoder throws on the uploaded bytes, neither action catches it: the
  action throws the same error and returns no log (and has sent nothing).
\<close>

theorem C8_decode_error:
  assumes "parse buffer = Inl e"
  shows "index_action parse te admin (Some buffer) w = (Inl e, w) \<and>
         part0_action parse admin (Some buffer) w = (Inl e, w) \<and>
         result_log (index_action parse te admin (Some buffer) w) = None \<and>
         result_log (part0_action parse admin (Some buffer) w) = None"
  using assms by (simp add: index_action_def part0_action_def result_log_def)

theorem C8_decode_error_witness:
  "rejecting ''Quote Not Closed'' [0x22, 0x61] = Inl ''Quote Not Closed'' \<and>
   index_action (rejecting ''Quote Not Closed'') v8_message (responding created_response)
       (Some [0x22, 0x61]) world0 = (Inl ''Quote Not Closed'', world0) \<and>
   part0_action (rejecting ''Quote Not Closed'') (responding created_response)
       (Some [0x22, 0x61]) world0 = (Inl ''Quote Not Closed'', world0) \<and>
   result_log (index_action (rejecting ''Quote Not Closed'') v8_message
       (responding created_response) (Some [0x22, 0x61]) world0) = None \<and>
   result_log (part0_action (rejecting ''Quote Not Closed'') (responding created_response)
       (Some [0x22, 0x61]) world0) = None"
proof -
  have h: "rejecting ''Quote Not Closed'' [0x22, 0x61] = Inl ''Quote Not Closed''"
    by (simp add: rejecting_def)
  show ?thesis
    using h C8_decode_error [where parse = "rejecting ''Quote Not Closed''"
        and buffer = "[0x22, 0x61]" and e = "''Quote Not Closed''" and te = v8_message
        and admin = "responding created_response" and w = world0, OF h]
    by blast
qed

text \<open>
  C9. For a processed row whose response lacks \<^verbatim>\<open>data\<close> or
  \<^verbatim>\<open>data.metafieldDefinitionCreate\<close>: app._index.tsx, which reads them without
  optional chaining, appends the failure line with the TypeError's message; part_000
  appends the unknown-response line; the two lines differ; and in both modules the loop
  goes on with the next row.
\<close>

theorem C9_missing_payload:
  assumes "processed row" and "lacks_payload json"
  shows "(\<exists>of_null p. index_interpret te (row_name row) (row_key row) (Inr json) =
            line_failed (row_name row) (te of_null p)) \<and>
         part0_interpret (row_name row) (row_key row) (Inr json) = line_unknown (row_name row) \<and>
         line_failed (row_name row) msg \<noteq> line_unknown (row_name row) \<and>
         (graphql admin (row_mutation index_mutation row) w = (Inr json, w') \<longrightarrow>
            (\<exists>of_null p.
               process_rows index_mutation (index_interpret te) admin (row # rows) finalLog w =
               process_rows index_mutation (index_interpret te) admin rows
                 (finalLog @ [line_failed (row_name row) (te of_null p)]) w')) \<and>
         (graphql admin (row_mutation part0_mutation row) w = (Inr json, w') \<longrightarrow>
            process_rows part0_mutation part0_interpret admin (row # rows) finalLog w =
            process_rows part0_mutation part0_interpret admin rows
              (finalLog @ [line_unknown (row_name row)]) w')"
proof -
  obtain of_null p where failed:
    "index_interpret te (row_name row) (row_key row) (Inr json) =
       line_failed (row_name row) (te of_null p)"
    using index_interpret_lacking [OF assms(2)] by blast
  have unknown: "part0_interpret (row_name row) (row_key row) (Inr json) = line_unknown (row_name row)"
    using assms(2) by (rule part0_interpret_lacking)
  have index: "process_rows index_mutation (index_interpret te) admin (row # rows) finalLog w =
      process_rows index_mutation (index_interpret te) admin rows
        (finalLog @ [line_failed (row_name row) (te of_null p)]) w'"
    if "graphql admin (row_mutation index_mutation row) w = (Inr json, w')"
    using that failed by (simp add: process_rows_processed [OF assms(1)] del: process_rows.simps)
  have part0: "process_rows part0_mutation part0_interpret admin (row # rows) finalLog w =
      process_rows part0_mutation part0_interpret admin rows
        (finalLog @ [line_unknown (row_name row)]) w'"
    if "graphql admin (row_mutation part0_mutation row) w = (Inr json, w')"
    using that unknown by (simp add: process_rows_processed [OF assms(1)] del: process_rows.simps)
  show ?thesis
    using failed unknown index part0 line_failed_neq_unknown by blast
qed

theorem C9_missing_payload_witness:
  "processed color_row \<and> lacks_payload (Json Undefined) \<and>
   process_rows index_mutation (index_interpret v8_message) (responding no_data_response)
       [color_row, color_row] [] world0 =
     ([[0x274C] @ js '' Failed for Color '' @ [0x2192] @
         js '' Cannot read properties of undefined (reading '' @ [0x27] @
         js ''metafieldDefinitionCreate'' @ [0x27] @ js '')'',
       [0x274C] @ js '' Failed for Color '' @ [0x2192] @
         js '' Cannot read properties of undefined (reading '' @ [0x27] @
         js ''metafieldDefinitionCreate'' @ [0x27] @ js '')''],
      \<lparr>sent = [index_mutation (js ''Color'') (js ''color'') (js ''single_line_text_field'') [],
               index_mutation (js ''Color'') (js ''color'') (js ''single_line_text_field'') []],
       remote = ()\<rparr>) \<and>
   process_rows part0_mutation part0_interpret (responding no_data_response)
       [color_row, color_row] [] world0 =
     ([[0x26A0, 0xFE0F] @ js '' Unknown response for Color'',
       [0x26A0, 0xFE0F] @ js '' Unknown response for Color''],
      \<lparr>sent = [part0_mutation (js ''Color'') (js ''color'') (js ''single_line_text_field'') [],
               part0_mutation (js ''Color'') (js ''color'') (js ''single_line_text_field'') []],
       remote = ()\<rparr>)"
proof -
  have h1: "processed color_row"
    by (rule processed_color_row)
  have h2: "lacks_payload (Json Undefined)"
    by simp
  have fields: "row_name color_row = js ''Color''" "row_key color_row = js ''color''"
    "row_mutation build color_row = build (js ''Color'') (js ''color'') (js ''single_line_text_field'') []"
    for build
    by (simp_all add: row_name_def row_key_def row_mutation_def color_row_fields del: js_Cons)
  have exchange: "graphql (responding no_data_response) m w =
      (Inr (Json Undefined), \<lparr>sent = sent w @ [m], remote = ()\<rparr>)" for m and w :: "unit world"
    by (simp add: graphql_def responding_def no_data_response_def)
  have failed: "index_interpret v8_message (js ''Color'') (js ''color'') (Inr (Json Undefined)) =
      [0x274C] @ js '' Failed for Color '' @ [0x2192] @
         js '' Cannot read properties of undefined (reading '' @ [0x27] @
         js ''metafieldDefinitionCreate'' @ [0x27] @ js '')''"
    by (simp add: index_interpret_def index_read_def line_failed_def cross_mark_def arrow_def
        v8_message_def)
  have unknown: "line_unknown (js ''Color'') = [0x26A0, 0xFE0F] @ js '' Unknown response for Color''"
    by (simp add: line_unknown_def warning_sign_def)
  note inst = C9_missing_payload [where row = color_row and json = "Json Undefined"
      and te = v8_message and admin = "responding no_data_response" and w = world0
      and w' = "\<lparr>sent = [part0_mutation (js ''Color'') (js ''color'') (js ''single_line_text_field'') []],
                remote = ()\<rparr>"
      and rows = "[color_row]" and finalLog = "[]", OF h1 h2]
  have part0: "process_rows part0_mutation part0_interpret (responding no_data_response)
       [color_row, color_row] [] world0 =
     ([line_unknown (js ''Color''), line_unknown (js ''Color'')],
      \<lparr>sent = [part0_mutation (js ''Color'') (js ''color'') (js ''single_line_text_field'') [],
               part0_mutation (js ''Color'') (js ''color'') (js ''single_line_text_field'') []],
       remote = ()\<rparr>)"
    using inst
    by (simp add: fields exchange row_step_color no_data_response_def part0_interpret_def
        part0_read_def world0_def del: js_Cons process_rows.simps(2))
       (simp add: row_step_color no_data_response_def part0_interpret_def part0_read_def del: js_Cons)
  have index: "process_rows index_mutation (index_interpret v8_message) (responding no_data_response)
       [color_row, color_row] [] world0 =
     ([index_interpret v8_message (js ''Color'') (js ''color'') (Inr (Json Undefined)),
       index_interpret v8_message (js ''Color'') (js ''color'') (Inr (Json Undefined))],
      \<lparr>sent = [index_mutation (js ''Color'') (js ''color'') (js ''single_line_text_field'') [],
               index_mutation (js ''Color'') (js ''color'') (js ''single_line_text_field'') []],
       remote = ()\<rparr>)"
    by (simp add: row_step_color no_data_response_def world0_def del: js_Cons)
  show ?thesis
    using h1 h2 part0 index by (simp only: failed unknown)
qed

text \<open>
  C10. A description that is missing or only whitespace is the empty string in the
  payload that the loop sends, in both modules, so a row gives the same payload, line
  and world with the one as with the other. The namespace of the payload is always
  \<^verbatim>\<open>custom\<close> and its owner type always \<^verbatim>\<open>PRODUCT\<close>, whatever the row holds: the payload
  that part_000 sends for a processed row has exactly one definition object, with the
  fields name, namespace \<^verbatim>\<open>custom\<close>, key, type, description and ownerType
  \<^verbatim>\<open>PRODUCT\<close>. The payload that app._index.tsx sends does not keep this: for the row
  \<open>injected_row\<close>, whose name holds quotes, its first definition object has the namespace
  \<^verbatim>\<open>evil\<close> and the owner type \<^verbatim>\<open>COLLECTION\<close>.
\<close>

theorem C10_description_and_constants:
  assumes "processed row" and "blank d"
  shows "sent (snd (row_step index_mutation (index_interpret te) admin
                      (row(js ''Description'' := d)) w)) =
           sent w @ [index_mutation (or_empty (trimmed row ''Name'')) (or_empty (trimmed row ''Key''))
                       (or_empty (trimmed row ''Type'')) []] \<and>
         sent (snd (row_step part0_mutation part0_interpret admin
                      (row(js ''Description'' := d)) w)) =
           sent w @ [part0_mutation (or_empty (trimmed row ''Name'')) (or_empty (trimmed row ''Key''))
                       (or_empty (trimmed row ''Type'')) []] \<and>
         row_step index_mutation (index_interpret te) admin (row(js ''Description'' := d)) w =
           row_step index_mutation (index_interpret te) admin (row(js ''Description'' := None)) w \<and>
         row_step part0_mutation part0_interpret admin (row(js ''Description'' := d)) w =
           row_step part0_mutation part0_interpret admin (row(js ''Description'' := None)) w \<and>
         map spec_definitions (sent (snd (row_step part0_mutation part0_interpret admin row w))) =
           map spec_definitions (sent w) @
           [Some [[(js ''name'', Str (or_empty (trimmed row ''Name''))),
                   (js ''namespace'', Str (js ''custom'')),
                   (js ''key'', Str (or_empty (trimmed row ''Key''))),
                   (js ''type'', Str (or_empty (trimmed row ''Type''))),
                   (js ''description'', Str (or_empty (trimmed row ''Description''))),
                   (js ''ownerType'', Ident (js ''PRODUCT''))]]] \<and>
         map spec_definitions
           (sent (snd (row_step index_mutation (index_interpret v8_message)
                         (responding created_response) injected_row world0))) =
           [Some [[(js ''name'', Str (js ''A'')), (js ''namespace'', Str (js ''evil'')),
                   (js ''key'', Str (js ''k'')), (js ''type'', Str (js ''single_line_text_field'')),
                   (js ''description'', Str (js ''B'')),
                   (js ''ownerType'', Ident (js ''COLLECTION''))],
                  [(js ''name'', Str (js ''x'')), (js ''namespace'', Str (js ''custom'')),
                   (js ''key'', Str (js ''color'')), (js ''type'', Str (js ''single_line_text_field'')),
                   (js ''description'', Str []), (js ''ownerType'', Ident (js ''PRODUCT''))]]]"
proof -
  have upd: "processed (row(js ''Description'' := d))"
    using assms(1) by (simp only: processed_upd_description)
  have sent_upd: "sent (snd (row_step build reading admin (row(js ''Description'' := d)) w)) =
      sent w @ [build (or_empty (trimmed row ''Name'')) (or_empty (trimmed row ''Key''))
                  (or_empty (trimmed row ''Type'')) []]" for build reading
    using assms(2)
    by (simp add: sent_row_step [OF upd] trimmed_upd_other description_blank del: js_Cons)
  have same: "row_step build reading admin (row(js ''Description'' := d)) w =
      row_step build reading admin (row(js ''Description'' := None)) w" for build reading
    using assms(2) by (rule row_step_description)
  have part0: "map spec_definitions (sent (snd (row_step part0_mutation part0_interpret admin row w))) =
      map spec_definitions (sent w) @
      [Some [[(js ''name'', Str (or_empty (trimmed row ''Name''))),
              (js ''namespace'', Str (js ''custom'')),
              (js ''key'', Str (or_empty (trimmed row ''Key''))),
              (js ''type'', Str (or_empty (trimmed row ''Type''))),
              (js ''description'', Str (or_empty (trimmed row ''Description''))),
              (js ''ownerType'', Ident (js ''PRODUCT''))]]]"
    by (simp add: sent_row_step [OF assms(1)] part0_definitions del: js_Cons)
  have index: "map spec_definitions
      (sent (snd (row_step index_mutation (index_interpret v8_message)
                    (responding created_response) injected_row world0))) =
      [spec_definitions (index_mutation injected_name (js ''color'') (js ''single_line_text_field'') [])]"
    by (simp add: row_step_injected world0_def del: js_Cons)
  show ?thesis
    using sent_upd [of index_mutation "index_interpret te"] sent_upd [of part0_mutation part0_interpret]
      same [of index_mutation "index_interpret te"] same [of part0_mutation part0_interpret]
      part0 index
    by (simp only: index_injected_definitions)
qed

theorem C10_description_and_constants_witness:
  "processed color_row \<and> blank (Some (js ''   '')) \<and>
   sent (snd (row_step index_mutation (index_interpret v8_message) (responding created_response)
                (color_row(js ''Description'' \<mapsto> js ''   '')) world0)) =
     [index_mutation (js ''Color'') (js ''color'') (js ''single_line_text_field'') []] \<and>
   sent (snd (row_step part0_mutation part0_interpret (responding created_response)
                (color_row(js ''Description'' \<mapsto> js ''   '')) world0)) =
     [part0_mutation (js ''Color'') (js ''color'') (js ''single_line_text_field'') []] \<and>
   row_step part0_mutation part0_interpret (responding created_response)
       (color_row(js ''Description'' \<mapsto> js ''   '')) world0 =
     row_step part0_mutation part0_interpret (responding created_response)
       (color_row(js ''Description'' := None)) world0 \<and>
   map spec_definitions
     (sent (snd (row_step part0_mutation part0_interpret (responding created_response)
                   color_row world0))) =
     [Some [[(js ''name'', Str (js ''Color'')), (js ''namespace'', Str (js ''custom'')),
             (js ''key'', Str (js ''color'')), (js ''type'', Str (js ''single_line_text_field'')),
             (js ''description'', Str []), (js ''ownerType'', Ident (js ''PRODUCT''))]]]"
proof -
  have h1: "processed color_row"
    by (rule processed_color_row)
  have h2: "blank (Some (js ''   ''))"
    by (simp add: isWhiteSpace_def)
  have fields: "or_empty (trimmed color_row ''Name'') = js ''Color''"
    "or_empty (trimmed color_row ''Key'') = js ''color''"
    "or_empty (trimmed color_row ''Type'') = js ''single_line_text_field''"
    "or_empty (trimmed color_row ''Description'') = []"
    by (simp_all add: color_row_fields del: js_Cons)
  have start: "sent world0 = []"
    by (simp add: world0_def)
  show ?thesis
    using h1 h2
      C10_description_and_constants [where d = "Some (js ''   '')" and row = color_row
        and te = v8_message and admin = "responding created_response" and w = world0, OF h1 h2]
    unfolding fields start list.map append_Nil
    by blast
qed

end
